theory Spec2Isabelle
  imports Main
begin

section \<open>The request-id filter of zerver (filter/request\_id.go)\<close>

text \<open>
  The file defines an interface \<open>IDStore\<close> (\<open>Init\<close>, \<open>Destroy\<close>, \<open>Save\<close>, \<open>Remove\<close>), an
  in-memory implementation \<open>MemIDStore\<close>, a redis-backed \<open>RedisIDStore\<close>, and the filter
  \<open>RequestId\<close> that claims the key \<open>ip:id\<close> before the downstream chain runs and releases
  it afterwards.

  Go's \<open>error\<close> is an interface value; \<open>nil\<close> is \<open>None\<close>. \<open>errors.Err\<close> is a string type, so
  two such errors are equal exactly when their texts are; every other dynamic error
  type (a network or redis error, say) is \<open>ForeignError\<close> and never equals an
  \<open>errors.Err\<close>.
\<close>

subsection \<open>Errors, panics and outcomes\<close>

datatype error = Err string | ForeignError string

definition ErrRequestIDExist :: error where
  "ErrRequestIDExist = Err ''Request id already exist''"

text \<open>
  A call either returns or panics. The panics the file can raise: a write to a nil
  map, a method call through a nil interface or pointer, a failed type assertion,
  \<open>Logger.Panicln\<close>, and whatever the downstream chain or a foreign store raises.
\<close>

datatype panic =
    NilMapAssignment
  | NilDereference
  | TypeAssertion
  | LoggerPanic error
  | ForeignPanic string

datatype 'a outcome = Returns 'a | Panics panic

subsection \<open>MemIDStore\<close>

text \<open>
  \<open>requests map[string]struct{}\<close> is a partial map to \<open>unit\<close>; the outer \<open>option\<close> is
  Go's nil map (the zero value of the struct, and the state after \<open>Destroy\<close>). Every
  method body runs between \<open>m.lock.Lock()\<close> and \<open>m.lock.Unlock()\<close>, so each call is one
  atomic step on the map and the lock itself is not a field of the model.
\<close>

record MemIDStore =
  requests :: "(string \<rightharpoonup> unit) option"

definition new_MemIDStore :: MemIDStore where
  "new_MemIDStore = \<lparr>requests = None\<rparr>"

text \<open>\<open>_, has := m.requests[id]\<close>: reading a nil map finds nothing.\<close>

fun has :: "(string \<rightharpoonup> unit) option \<Rightarrow> string \<Rightarrow> bool" where
  "has None key = False"
| "has (Some s) key = (s key \<noteq> None)"

definition MemIDStore_Init :: "MemIDStore \<Rightarrow> error option \<times> MemIDStore" where
  "MemIDStore_Init m = (None, m\<lparr>requests := Some Map.empty\<rparr>)"

definition MemIDStore_Destroy :: "MemIDStore \<Rightarrow> MemIDStore" where
  "MemIDStore_Destroy m = m\<lparr>requests := None\<rparr>"

text \<open>
  \<open>m.requests[id] = struct{}{}\<close> on a nil map panics; on a map it inserts. The panic
  comes before \<open>m.lock.Unlock()\<close> and there is no \<open>defer\<close>, so in the source the lock
  stays held and a later call on that store would block. The model has no lock: the
  result of a panicking \<open>Save\<close> is the end of a run, and nothing below calls a store
  again after its \<open>Save\<close> has panicked.
\<close>

definition MemIDStore_Save :: "MemIDStore \<Rightarrow> string \<Rightarrow> error option outcome \<times> MemIDStore" where
  "MemIDStore_Save m key =
     (if has (requests m) key then (Returns (Some ErrRequestIDExist), m)
      else (case requests m of
              None \<Rightarrow> (Panics NilMapAssignment, m)
            | Some s \<Rightarrow> (Returns None, m\<lparr>requests := Some (s(key \<mapsto> ()))\<rparr>)))"

text \<open>\<open>delete(m.requests, id)\<close> is a no-op on a nil map and on an absent key.\<close>

definition MemIDStore_Remove :: "MemIDStore \<Rightarrow> string \<Rightarrow> error option \<times> MemIDStore" where
  "MemIDStore_Remove m key =
     (None, m\<lparr>requests := map_option (\<lambda>s. s(key := None)) (requests m)\<rparr>)"

subsection \<open>A client issuing a sequence of calls on one MemIDStore\<close>

datatype store_op = Save string | Remove string

text \<open>
  The calls run in order, each on the store the previous one left; every call is
  listed with what it gave. A panic ends the run.
\<close>

fun MemIDStore_run ::
  "MemIDStore \<Rightarrow> store_op list \<Rightarrow> (store_op \<times> error option outcome) list \<times> MemIDStore" where
  "MemIDStore_run m [] = ([], m)"
| "MemIDStore_run m (Save k # ops) =
     (case MemIDStore_Save m k of
        (Panics p, m') \<Rightarrow> ([(Save k, Panics p)], m')
      | (Returns e, m') \<Rightarrow>
          (case MemIDStore_run m' ops of (rs, m'') \<Rightarrow> ((Save k, Returns e) # rs, m'')))"
| "MemIDStore_run m (Remove k # ops) =
     (case MemIDStore_Remove m k of
        (e, m') \<Rightarrow>
          (case MemIDStore_run m' ops of (rs, m'') \<Rightarrow> ((Remove k, Returns e) # rs, m'')))"

text \<open>What the \<open>Save(k)\<close> calls of a run returned, in order.\<close>

definition save_results ::
  "string \<Rightarrow> (store_op \<times> error option outcome) list \<Rightarrow> error option outcome list" where
  "save_results k rs = map snd (filter (\<lambda>r. fst r = Save k) rs)"

text \<open>One success, then only already-exists errors.\<close>

fun first_only :: "nat \<Rightarrow> error option outcome list" where
  "first_only 0 = []"
| "first_only (Suc n) = Returns None # replicate n (Returns (Some ErrRequestIDExist))"

subsection \<open>Environment, components and logger\<close>

text \<open>
  Modelled from the spec: \<open>component.Redis\<close> is not under src/. The spec has a handle
  to the shared store, resolved during \<open>Init\<close> from a named external resource; here it
  is an opaque handle.
\<close>

datatype Redis = RedisConn string

text \<open>
  What \<open>env.Component\<close> can hand back under a name: a \<open>*component.Redis\<close>, or a value of
  some other dynamic type, on which the type assertion \<open>redis.(*component.Redis)\<close>
  panics.
\<close>

datatype Component = RedisComponent Redis | OtherComponent string

text \<open>
  Modelled from the spec: \<open>zerver.Logger\<close> is not under src/. The logger is the list of
  entries written to it so far.
\<close>

record Logger =
  entries :: "error list"

text \<open>
  Modelled from the spec: \<open>Logger.Panicln\<close> is not under src/. The spec calls the
  filter's use of it a logger panic on store failure: the error is written to the
  log, then the call panics with it.
\<close>

definition Panicln :: "Logger \<Rightarrow> error \<Rightarrow> unit outcome \<times> Logger" where
  "Panicln l e = (Panics (LoggerPanic e), l\<lparr>entries := entries l @ [e]\<rparr>)"

text \<open>
  Modelled from the spec: \<open>zerver.Enviroment\<close> is not under src/. As far as the file
  uses it, \<open>env.Component(name)\<close> returns a component (or nil) and an error, and
  \<open>env.Logger()\<close> a logger (or nil). The name \<open>component.COMP_REDIS\<close> is a parameter of
  \<open>RedisIDStore.Init\<close> below.
\<close>

record Enviroment =
  Component :: "string \<Rightarrow> Component option \<times> error option"
  Logger :: "Logger option"

text \<open>\<open>defval.String(&s, def)\<close> of gohper: an empty string takes the default.\<close>

definition defval_String :: "string \<Rightarrow> string \<Rightarrow> string" where
  "defval_String s def = (if s = '''' then def else s)"

subsection \<open>RedisIDStore.Init\<close>

record RedisIDStore =
  Key :: string
  redis :: "Redis option"

definition RedisIDStore_Init ::
  "string \<Rightarrow> RedisIDStore \<Rightarrow> Enviroment \<Rightarrow> error option outcome \<times> RedisIDStore" where
  "RedisIDStore_Init COMP_REDIS r env =
     (case Component env COMP_REDIS of
        (rds, err) \<Rightarrow>
          if err = None then
            (case rds of
               None \<Rightarrow> (Returns (Some (Err ''component redis isn't loaded'')), r)
             | Some (RedisComponent c) \<Rightarrow>
                 (Returns None, r\<lparr>Key := defval_String (Key r) ''RequestID'', redis := Some c\<rparr>)
             | Some (OtherComponent ty) \<Rightarrow> (Panics TypeAssertion, r))
          else (Returns err, r))"

definition RedisIDStore_Destroy :: "RedisIDStore \<Rightarrow> RedisIDStore" where
  "RedisIDStore_Destroy r = r\<lparr>redis := None\<rparr>"

subsection \<open>The IDStore interface\<close>

text \<open>
  A value of interface type \<open>IDStore\<close> is a \<open>*MemIDStore\<close> or an implementation from
  outside the file, given by its four methods on a state of its own; any of them may
  return an error or panic. (\<open>*RedisIDStore\<close> is not among them as the file stands:
  its \<open>Remove(ip, id string)\<close> does not have the interface's signature.)
\<close>

record 's IDStore_methods =
  Init_m :: "Enviroment \<Rightarrow> 's \<Rightarrow> error option outcome \<times> 's"
  Destroy_m :: "'s \<Rightarrow> unit outcome \<times> 's"
  Save_m :: "'s \<Rightarrow> string \<Rightarrow> error option outcome \<times> 's"
  Remove_m :: "'s \<Rightarrow> string \<Rightarrow> error option outcome \<times> 's"

datatype 's IDStore = Mem MemIDStore | Impl "'s IDStore_methods" 's

definition IDStore_Init ::
  "'s IDStore \<Rightarrow> Enviroment \<Rightarrow> error option outcome \<times> 's IDStore" where
  "IDStore_Init st env =
     (case st of
        Mem m \<Rightarrow> (case MemIDStore_Init m of (e, m') \<Rightarrow> (Returns e, Mem m'))
      | Impl ms s \<Rightarrow> (case Init_m ms env s of (r, s') \<Rightarrow> (r, Impl ms s')))"

definition IDStore_Save :: "'s IDStore \<Rightarrow> string \<Rightarrow> error option outcome \<times> 's IDStore" where
  "IDStore_Save st key =
     (case st of
        Mem m \<Rightarrow> (case MemIDStore_Save m key of (r, m') \<Rightarrow> (r, Mem m'))
      | Impl ms s \<Rightarrow> (case Save_m ms s key of (r, s') \<Rightarrow> (r, Impl ms s')))"

definition IDStore_Remove :: "'s IDStore \<Rightarrow> string \<Rightarrow> error option outcome \<times> 's IDStore" where
  "IDStore_Remove st key =
     (case st of
        Mem m \<Rightarrow> (case MemIDStore_Remove m key of (e, m') \<Rightarrow> (Returns e, Mem m'))
      | Impl ms s \<Rightarrow> (case Remove_m ms s key of (r, s') \<Rightarrow> (r, Impl ms s')))"

subsection \<open>Request, response and chain\<close>

text \<open>
  Modelled from the spec: \<open>zerver.Request\<close> is not under src/. It exposes the method, a
  header lookup by name (the empty string when the header is absent) and the remote
  address.
\<close>

record Request =
  Method :: string
  Header :: "string \<Rightarrow> string"
  RemoteIP :: string

text \<open>
  Modelled from the spec: \<open>zerver.Response\<close> is not under src/. It exposes
  set-status-bad-request, set-status-forbidden and send-body(key, value); a response
  is the list of these calls made on it so far.
\<close>

datatype resp_call = ReportBadRequest | ReportForbidden | Send string string

type_synonym Response = "resp_call list"

text \<open>
  Modelled from the spec: \<open>zerver.FilterChain\<close> is not under src/. It is the downstream
  continuation: handed request and response, it returns or panics, leaving the
  response as it made it.
\<close>

type_synonym FilterChain = "Request \<Rightarrow> Response \<Rightarrow> unit outcome \<times> Response"

subsection \<open>RequestId\<close>

record 's RequestId =
  Store :: "'s IDStore option"
  HeaderName :: string
  PassingOnNoId :: bool
  Error :: string
  ErrorOverlap :: string
  logger :: "Logger option"

text \<open>
  \<open>defval.Nil(&ri.Store, new(MemIDStore))\<close> puts a fresh \<open>MemIDStore\<close> where no store
  was configured. The result of \<open>ri.Store.Init(env)\<close> is dropped: the statement is an
  expression statement, and the function ends in \<open>return nil\<close>.
\<close>

definition RequestId_Init ::
  "'s RequestId \<Rightarrow> Enviroment \<Rightarrow> error option outcome \<times> 's RequestId" where
  "RequestId_Init ri env =
     (let st = (case Store ri of None \<Rightarrow> Mem new_MemIDStore | Some st \<Rightarrow> st) in
      case IDStore_Init st env of
        (Panics p, st') \<Rightarrow> (Panics p, ri\<lparr>Store := Some st'\<rparr>)
      | (Returns e, st') \<Rightarrow>
          (Returns None,
           ri\<lparr>Store := Some st',
              HeaderName := defval_String (HeaderName ri) ''X-Request-Id'',
              Error := defval_String (Error ri) ''header value X-Request-Id can't be empty'',
              ErrorOverlap :=
                defval_String (ErrorOverlap ri) ''request already accepted before, please wait'',
              logger := Logger env\<rparr>))"

definition RequestId_Destroy :: "'s RequestId \<Rightarrow> 's RequestId" where
  "RequestId_Destroy ri = ri"

text \<open>
  What one run of \<open>Filter\<close> leaves behind: whether it returned or panicked, the guard
  (with its store and logger), the response, and the calls it made on the request,
  the chain, the store and the logger, in order.
\<close>

datatype call =
    ReqMethod
  | ReqHeader string
  | ReqRemoteIP
  | ChainCall
  | StoreSave string
  | StoreRemove string
  | LoggerPanicln error

record 's FilterResult =
  outcome :: "unit outcome"
  guard :: "'s RequestId"
  response :: Response
  calls :: "call list"

text \<open>\<open>id := req.RemoteIP() + ":" + reqId\<close>\<close>

definition scope_key :: "string \<Rightarrow> string \<Rightarrow> string" where
  "scope_key ip reqId = ip @ '':'' @ reqId"

definition RequestId_Filter ::
  "'s RequestId \<Rightarrow> Request \<Rightarrow> Response \<Rightarrow> FilterChain \<Rightarrow> 's FilterResult" where
  "RequestId_Filter ri req resp chain =
     (if Method req = ''GET'' then
        (case chain req resp of
           (r, resp') \<Rightarrow>
             \<lparr>outcome = r, guard = ri, response = resp', calls = [ReqMethod, ChainCall]\<rparr>)
      else
        let reqId = Header req (HeaderName ri);
            pre = [ReqMethod, ReqHeader (HeaderName ri)]
        in
        if reqId = '''' then
          (if PassingOnNoId ri then
             (case chain req resp of
                (r, resp') \<Rightarrow>
                  \<lparr>outcome = r, guard = ri, response = resp', calls = pre @ [ChainCall]\<rparr>)
           else
             \<lparr>outcome = Returns (), guard = ri,
              response = resp @ [ReportBadRequest, Send ''error'' (Error ri)],
              calls = pre\<rparr>)
        else
          let key = scope_key (RemoteIP req) reqId;
              pre = pre @ [ReqRemoteIP]
          in
          (case Store ri of
             None \<Rightarrow>
               \<lparr>outcome = Panics NilDereference, guard = ri, response = resp, calls = pre\<rparr>
           | Some st \<Rightarrow>
               (case IDStore_Save st key of
                  (Panics p, st') \<Rightarrow>
                    \<lparr>outcome = Panics p, guard = ri\<lparr>Store := Some st'\<rparr>, response = resp,
                     calls = pre @ [StoreSave key]\<rparr>
                | (Returns err, st') \<Rightarrow>
                    if err = Some ErrRequestIDExist then
                      \<lparr>outcome = Returns (), guard = ri\<lparr>Store := Some st'\<rparr>,
                       response = resp @ [ReportForbidden, Send ''error'' (ErrorOverlap ri)],
                       calls = pre @ [StoreSave key]\<rparr>
                    else
                      (case err of
                         Some e \<Rightarrow>
                           (case logger ri of
                              None \<Rightarrow>
                                \<lparr>outcome = Panics NilDereference,
                                 guard = ri\<lparr>Store := Some st'\<rparr>, response = resp,
                                 calls = pre @ [StoreSave key]\<rparr>
                            | Some l \<Rightarrow>
                                (case Panicln l e of
                                   (r, l') \<Rightarrow>
                                     \<lparr>outcome = r,
                                      guard = ri\<lparr>Store := Some st', logger := Some l'\<rparr>,
                                      response = resp,
                                      calls = pre @ [StoreSave key, LoggerPanicln e]\<rparr>))
                       | None \<Rightarrow>
                           (case chain req resp of
                              (Panics p, resp') \<Rightarrow>
                                \<lparr>outcome = Panics p, guard = ri\<lparr>Store := Some st'\<rparr>,
                                 response = resp',
                                 calls = pre @ [StoreSave key, ChainCall]\<rparr>
                            | (Returns u, resp') \<Rightarrow>
                                (case IDStore_Remove st' key of
                                   (Panics p, st'') \<Rightarrow>
                                     \<lparr>outcome = Panics p, guard = ri\<lparr>Store := Some st''\<rparr>,
                                      response = resp',
                                      calls = pre @ [StoreSave key, ChainCall, StoreRemove key]\<rparr>
                                 | (Returns rerr, st'') \<Rightarrow>
                                     \<lparr>outcome = Returns (), guard = ri\<lparr>Store := Some st''\<rparr>,
                                      response = resp',
                                      calls =
                                        pre @ [StoreSave key, ChainCall, StoreRemove key]\<rparr>))))))"

text \<open>What an operator can read in the guard's log.\<close>

definition logged :: "'s RequestId \<Rightarrow> error list" where
  "logged ri = (case logger ri of None \<Rightarrow> [] | Some l \<Rightarrow> entries l)"

subsection \<open>Test doubles\<close>

text \<open>
  A store from outside the file whose calls give fixed answers: \<open>stub_store i s r\<close>
  answers \<open>Init\<close> with \<open>i\<close>, \<open>Save\<close> with \<open>s\<close> and \<open>Remove\<close> with \<open>r\<close>. A handler that
  sends one body, a request built from its three readings, and a guard as \<open>Init\<close>
  leaves it by default.
\<close>

definition stub_store ::
  "error option \<Rightarrow> error option \<Rightarrow> error option \<Rightarrow> unit IDStore_methods" where
  "stub_store i s r =
     \<lparr>Init_m = (\<lambda>env u. (Returns i, u)),
      Destroy_m = (\<lambda>u. (Returns (), u)),
      Save_m = (\<lambda>u key. (Returns s, u)),
      Remove_m = (\<lambda>u key. (Returns r, u))\<rparr>"

definition handler :: FilterChain where
  "handler req resp = (Returns (), resp @ [Send ''ok'' (Method req)])"

definition request :: "string \<Rightarrow> string \<Rightarrow> string \<Rightarrow> Request" where
  "request m ip tok =
     \<lparr>Method = m, Header = (\<lambda>h. if h = ''X-Request-Id'' then tok else ''''), RemoteIP = ip\<rparr>"

definition guard_over :: "'s IDStore \<Rightarrow> bool \<Rightarrow> 's RequestId" where
  "guard_over st pass =
     \<lparr>Store = Some st, HeaderName = ''X-Request-Id'', PassingOnNoId = pass,
      Error = ''header value X-Request-Id can't be empty'',
      ErrorOverlap = ''request already accepted before, please wait'',
      logger = Some \<lparr>entries = []\<rparr>\<rparr>"

section \<open>Properties of MemIDStore\<close>

lemma not_Some_unit: "(x \<noteq> Some ()) = (x = None)"
  by (cases x) auto

lemma Save_absent:
  "requests m = Some s \<Longrightarrow> s k = None \<Longrightarrow>
   MemIDStore_Save m k = (Returns None, m\<lparr>requests := Some (s(k \<mapsto> ()))\<rparr>)"
  by (simp add: MemIDStore_Save_def)

lemma Save_present:
  "requests m = Some s \<Longrightarrow> s k \<noteq> None \<Longrightarrow>
   MemIDStore_Save m k = (Returns (Some ErrRequestIDExist), m)"
  by (simp add: MemIDStore_Save_def)

lemma Save_nil_map:
  "requests m = None \<Longrightarrow> MemIDStore_Save m k = (Panics NilMapAssignment, m)"
  by (simp add: MemIDStore_Save_def)

lemma Save_other_key:
  "requests m = Some s \<Longrightarrow> k' \<noteq> k \<Longrightarrow>
   \<exists>r m' s'. MemIDStore_Save m k' = (Returns r, m') \<and> requests m' = Some s' \<and> s' k = s k"
  by (cases "s k'") (auto simp: MemIDStore_Save_def)

lemma Remove_other_key:
  "requests m = Some s \<Longrightarrow> k' \<noteq> k \<Longrightarrow>
   \<exists>m' s'. MemIDStore_Remove m k' = (None, m') \<and> requests m' = Some s' \<and> s' k = s k"
  by (simp add: MemIDStore_Remove_def)

lemma run_Save_Returns:
  "MemIDStore_Save m k = (Returns e, m') \<Longrightarrow>
   fst (MemIDStore_run m (Save k # ops)) = (Save k, Returns e) # fst (MemIDStore_run m' ops)"
  by (simp add: split_beta)

lemma run_Remove:
  "MemIDStore_Remove m k = (e, m') \<Longrightarrow>
   fst (MemIDStore_run m (Remove k # ops)) = (Remove k, Returns e) # fst (MemIDStore_run m' ops)"
  by (simp add: split_beta)

text \<open>Once \<open>k\<close> is claimed and never removed, every \<open>Save(k)\<close> of a run is refused.\<close>

lemma run_claimed:
  "requests m = Some s \<Longrightarrow> s k \<noteq> None \<Longrightarrow> Remove k \<notin> set ops \<Longrightarrow>
   save_results k (fst (MemIDStore_run m ops)) =
     replicate (count_list ops (Save k)) (Returns (Some ErrRequestIDExist))"
proof (induction ops arbitrary: m s)
  case Nil
  show ?case by (simp add: save_results_def)
next
  case (Cons op ops)
  show ?case
  proof (cases op)
    case (Save k')
    show ?thesis
    proof (cases "k' = k")
      case True
      have sv: "MemIDStore_Save m k = (Returns (Some ErrRequestIDExist), m)"
        using Cons.prems(1,2) by (rule Save_present)
      have "save_results k (fst (MemIDStore_run m ops)) =
              replicate (count_list ops (Save k)) (Returns (Some ErrRequestIDExist))"
        using Cons.IH [OF Cons.prems(1,2)] Cons.prems(3) by simp
      then show ?thesis
        using Save True run_Save_Returns [OF sv, of ops] by (simp add: save_results_def)
    next
      case False
      obtain r m' s' where sv: "MemIDStore_Save m k' = (Returns r, m')"
        and m': "requests m' = Some s'" and keep: "s' k = s k"
        using Save_other_key [OF Cons.prems(1) False] by blast
      have "save_results k (fst (MemIDStore_run m' ops)) =
              replicate (count_list ops (Save k)) (Returns (Some ErrRequestIDExist))"
        using Cons.IH [OF m'] Cons.prems(2,3) keep by simp
      then show ?thesis
        using Save False run_Save_Returns [OF sv, of ops] by (simp add: save_results_def)
    qed
  next
    case (Remove k')
    then have ne: "k' \<noteq> k" using Cons.prems(3) by auto
    obtain m' s' where rm: "MemIDStore_Remove m k' = (None, m')"
      and m': "requests m' = Some s'" and keep: "s' k = s k"
      using Remove_other_key [OF Cons.prems(1) ne] by blast
    have "save_results k (fst (MemIDStore_run m' ops)) =
            replicate (count_list ops (Save k)) (Returns (Some ErrRequestIDExist))"
      using Cons.IH [OF m'] Cons.prems(2,3) keep by simp
    then show ?thesis
      using Remove ne run_Remove [OF rm, of ops] by (simp add: save_results_def)
  qed
qed

text \<open>From a store that does not hold \<open>k\<close>, the first \<open>Save(k)\<close> of a run wins.\<close>

lemma run_unclaimed:
  "requests m = Some s \<Longrightarrow> s k = None \<Longrightarrow> Remove k \<notin> set ops \<Longrightarrow>
   save_results k (fst (MemIDStore_run m ops)) = first_only (count_list ops (Save k))"
proof (induction ops arbitrary: m s)
  case Nil
  show ?case by (simp add: save_results_def)
next
  case (Cons op ops)
  show ?case
  proof (cases op)
    case (Save k')
    show ?thesis
    proof (cases "k' = k")
      case True
      let ?m' = "m\<lparr>requests := Some (s(k \<mapsto> ()))\<rparr>"
      have sv: "MemIDStore_Save m k = (Returns None, ?m')"
        using Cons.prems(1,2) by (rule Save_absent)
      have "save_results k (fst (MemIDStore_run ?m' ops)) =
              replicate (count_list ops (Save k)) (Returns (Some ErrRequestIDExist))"
        using run_claimed [of ?m' "s(k \<mapsto> ())" k ops] Cons.prems(3) by simp
      then show ?thesis
        using Save True run_Save_Returns [OF sv, of ops] by (simp add: save_results_def)
    next
      case False
      obtain r m' s' where sv: "MemIDStore_Save m k' = (Returns r, m')"
        and m': "requests m' = Some s'" and keep: "s' k = s k"
        using Save_other_key [OF Cons.prems(1) False] by blast
      have "save_results k (fst (MemIDStore_run m' ops)) =
              first_only (count_list ops (Save k))"
        using Cons.IH [OF m'] Cons.prems(2,3) keep by simp
      then show ?thesis
        using Save False run_Save_Returns [OF sv, of ops] by (simp add: save_results_def)
    qed
  next
    case (Remove k')
    then have ne: "k' \<noteq> k" using Cons.prems(3) by auto
    obtain m' s' where rm: "MemIDStore_Remove m k' = (None, m')"
      and m': "requests m' = Some s'" and keep: "s' k = s k"
      using Remove_other_key [OF Cons.prems(1) ne] by blast
    have "save_results k (fst (MemIDStore_run m' ops)) =
            first_only (count_list ops (Save k))"
      using Cons.IH [OF m'] Cons.prems(2,3) keep by simp
    then show ?thesis
      using Remove ne run_Remove [OF rm, of ops] by (simp add: save_results_def)
  qed
qed

text \<open>
  Claim C1. On an initialised store (its map is not nil), \<open>Save(k)\<close> returns nil and
  inserts \<open>k\<close> when \<open>k\<close> is not a member, and returns \<open>ErrRequestIDExist\<close>, leaving the
  store as it was, when \<open>k\<close> is a member. Hence in any sequence of calls that starts
  without \<open>k\<close> and contains no \<open>Remove(k)\<close> (calls on other keys may be interleaved),
  the first \<open>Save(k)\<close> returns nil and every later one returns \<open>ErrRequestIDExist\<close>.
\<close>

theorem MemIDStore_Save_exclusive:
  assumes "requests m = Some s"
  shows "(s k = None \<longrightarrow>
            MemIDStore_Save m k = (Returns None, m\<lparr>requests := Some (s(k \<mapsto> ()))\<rparr>))
       \<and> (s k \<noteq> None \<longrightarrow>
            MemIDStore_Save m k = (Returns (Some ErrRequestIDExist), m))
       \<and> (s k = None \<and> Remove k \<notin> set ops \<longrightarrow>
            save_results k (fst (MemIDStore_run m ops)) = first_only (count_list ops (Save k)))"
  using assms Save_absent Save_present run_unclaimed by blast

theorem MemIDStore_Save_exclusive_witness:
  "requests (snd (MemIDStore_Init new_MemIDStore)) = Some Map.empty
   \<and> MemIDStore_Save (snd (MemIDStore_Init new_MemIDStore)) ''1.2.3.4:abc'' =
       (Returns None, \<lparr>requests = Some [''1.2.3.4:abc'' \<mapsto> ()]\<rparr>)
   \<and> MemIDStore_Save \<lparr>requests = Some [''1.2.3.4:abc'' \<mapsto> ()]\<rparr> ''1.2.3.4:abc'' =
       (Returns (Some ErrRequestIDExist), \<lparr>requests = Some [''1.2.3.4:abc'' \<mapsto> ()]\<rparr>)
   \<and> Remove ''1.2.3.4:abc'' \<notin> set [Save ''1.2.3.4:abc'', Save ''5.6.7.8:abc'',
         Save ''1.2.3.4:abc'', Remove ''5.6.7.8:abc'', Save ''1.2.3.4:abc'']
   \<and> save_results ''1.2.3.4:abc''
         (fst (MemIDStore_run (snd (MemIDStore_Init new_MemIDStore))
            [Save ''1.2.3.4:abc'', Save ''5.6.7.8:abc'', Save ''1.2.3.4:abc'',
             Remove ''5.6.7.8:abc'', Save ''1.2.3.4:abc''])) =
       [Returns None, Returns (Some ErrRequestIDExist), Returns (Some ErrRequestIDExist)]"
proof -
  let ?k = "''1.2.3.4:abc''"
  let ?m0 = "\<lparr>requests = Some Map.empty\<rparr>"
  let ?m1 = "\<lparr>requests = Some [?k \<mapsto> ()]\<rparr>"
  let ?ops = "[Save ?k, Save ''5.6.7.8:abc'', Save ?k, Remove ''5.6.7.8:abc'', Save ?k]"
  have init: "requests ?m0 = Some Map.empty" by simp
  have absent: "Map.empty ?k = None" by simp
  have no_remove: "Remove ?k \<notin> set ?ops" by simp
  have claimed: "requests ?m1 = Some [?k \<mapsto> ()]" and present: "[?k \<mapsto> ()] ?k \<noteq> None"
    by simp_all
  have upd: "?m0\<lparr>requests := Some (Map.empty(?k \<mapsto> ()))\<rparr> = ?m1" by simp
  have n: "first_only (count_list ?ops (Save ?k)) =
      [Returns None, Returns (Some ErrRequestIDExist), Returns (Some ErrRequestIDExist)]"
    by (simp add: numeral_eq_Suc)
  have first: "MemIDStore_Save ?m0 ?k = (Returns None, ?m1)"
    using MemIDStore_Save_exclusive [OF init, of ?k ?ops] absent unfolding upd by blast
  have later: "MemIDStore_Save ?m1 ?k = (Returns (Some ErrRequestIDExist), ?m1)"
    using MemIDStore_Save_exclusive [OF claimed, of ?k "[]"] present by blast
  have run: "save_results ?k (fst (MemIDStore_run ?m0 ?ops)) =
      first_only (count_list ?ops (Save ?k))"
    using MemIDStore_Save_exclusive [OF init, of ?k ?ops] absent no_remove by blast
  have m0: "snd (MemIDStore_Init new_MemIDStore) = ?m0"
    by (simp add: MemIDStore_Init_def new_MemIDStore_def)
  show ?thesis
    using init first later no_remove run unfolding n m0 by blast
qed

text \<open>
  Claim C3. Whatever the store, if \<open>Save(k)\<close> returns nil, then the following
  \<open>Remove(k)\<close> returns nil and puts the store back as it was before the \<open>Save\<close>, and
  \<open>Save(k)\<close> on that store returns nil again and claims \<open>k\<close> as the first one did.
\<close>

theorem MemIDStore_Save_Remove_Save:
  assumes "MemIDStore_Save m k = (Returns None, m1)"
  shows "MemIDStore_Remove m1 k = (None, m)
       \<and> MemIDStore_Save (snd (MemIDStore_Remove m1 k)) k = (Returns None, m1)"
proof -
  from assms obtain s where s: "requests m = Some s" and absent: "s k = None"
    and m1: "m1 = m\<lparr>requests := Some (s(k \<mapsto> ()))\<rparr>"
    by (cases "requests m") (auto simp: MemIDStore_Save_def not_Some_unit split: if_splits)
  have "(s(k \<mapsto> ()))(k := None) = s"
    using absent by (simp add: fun_upd_idem)
  then have "MemIDStore_Remove m1 k = (None, m)"
    using s m1 by (simp add: MemIDStore_Remove_def)
  with assms show ?thesis by simp
qed

theorem MemIDStore_Save_Remove_Save_witness:
  "MemIDStore_Save \<lparr>requests = Some [''9.9.9.9:t'' \<mapsto> ()]\<rparr> ''1.2.3.4:abc'' =
     (Returns None, \<lparr>requests = Some [''9.9.9.9:t'' \<mapsto> (), ''1.2.3.4:abc'' \<mapsto> ()]\<rparr>)
   \<and> MemIDStore_Remove \<lparr>requests = Some [''9.9.9.9:t'' \<mapsto> (), ''1.2.3.4:abc'' \<mapsto> ()]\<rparr>
         ''1.2.3.4:abc'' = (None, \<lparr>requests = Some [''9.9.9.9:t'' \<mapsto> ()]\<rparr>)
   \<and> MemIDStore_Save
         (snd (MemIDStore_Remove
            \<lparr>requests = Some [''9.9.9.9:t'' \<mapsto> (), ''1.2.3.4:abc'' \<mapsto> ()]\<rparr> ''1.2.3.4:abc''))
         ''1.2.3.4:abc'' =
       (Returns None, \<lparr>requests = Some [''9.9.9.9:t'' \<mapsto> (), ''1.2.3.4:abc'' \<mapsto> ()]\<rparr>)"
proof -
  have sv: "MemIDStore_Save \<lparr>requests = Some [''9.9.9.9:t'' \<mapsto> ()]\<rparr> ''1.2.3.4:abc'' =
     (Returns None, \<lparr>requests = Some [''9.9.9.9:t'' \<mapsto> (), ''1.2.3.4:abc'' \<mapsto> ()]\<rparr>)"
    by (simp add: MemIDStore_Save_def)
  show ?thesis
    using sv MemIDStore_Save_Remove_Save [OF sv] by simp
qed

text \<open>
  Claim C9. \<open>Remove(k)\<close> always returns nil. When \<open>k\<close> is not in the store (also when
  the map is nil) the store is left exactly as it was; so a second \<open>Remove(k)\<close> after a
  first one returns nil and changes nothing.
\<close>

theorem MemIDStore_Remove_absent:
  "fst (MemIDStore_Remove m k) = None
   \<and> (\<not> has (requests m) k \<longrightarrow> MemIDStore_Remove m k = (None, m))
   \<and> MemIDStore_Remove (snd (MemIDStore_Remove m k)) k = (None, snd (MemIDStore_Remove m k))"
proof -
  have "\<not> has (requests m) k \<Longrightarrow> map_option (\<lambda>s. s(k := None)) (requests m) = requests m"
    by (cases "requests m") (auto simp: fun_upd_idem not_Some_unit)
  then show ?thesis
    by (simp add: MemIDStore_Remove_def option.map_comp comp_def)
qed

theorem MemIDStore_Remove_absent_witness:
  "\<not> has (requests \<lparr>requests = Some [''9.9.9.9:t'' \<mapsto> ()]\<rparr>) ''1.2.3.4:abc''
   \<and> MemIDStore_Remove \<lparr>requests = Some [''9.9.9.9:t'' \<mapsto> ()]\<rparr> ''1.2.3.4:abc'' =
       (None, \<lparr>requests = Some [''9.9.9.9:t'' \<mapsto> ()]\<rparr>)"
  using MemIDStore_Remove_absent [of "\<lparr>requests = Some [''9.9.9.9:t'' \<mapsto> ()]\<rparr>" "''1.2.3.4:abc''"]
  by simp

section \<open>Properties of the filter\<close>

lemma Filter_GET:
  "Method req = ''GET'' \<Longrightarrow>
   RequestId_Filter ri req resp chain =
     \<lparr>outcome = fst (chain req resp), guard = ri, response = snd (chain req resp),
      calls = [ReqMethod, ChainCall]\<rparr>"
  by (simp add: RequestId_Filter_def split_beta)

lemma Filter_no_token:
  "Method req \<noteq> ''GET'' \<Longrightarrow> Header req (HeaderName ri) = '''' \<Longrightarrow>
   RequestId_Filter ri req resp chain =
     (if PassingOnNoId ri then
        \<lparr>outcome = fst (chain req resp), guard = ri, response = snd (chain req resp),
         calls = [ReqMethod, ReqHeader (HeaderName ri), ChainCall]\<rparr>
      else
        \<lparr>outcome = Returns (), guard = ri,
         response = resp @ [ReportBadRequest, Send ''error'' (Error ri)],
         calls = [ReqMethod, ReqHeader (HeaderName ri)]\<rparr>)"
  by (simp add: RequestId_Filter_def split_beta)

text \<open>With a token, the filter's first four calls end in \<open>Save\<close> on the scope key.\<close>

lemma Filter_Save_returns:
  assumes "Method req \<noteq> ''GET''" and "Header req (HeaderName ri) \<noteq> ''''"
    and "Store ri = Some st"
    and "IDStore_Save st (scope_key (RemoteIP req) (Header req (HeaderName ri))) =
           (Returns err, st')"
  shows "RequestId_Filter ri req resp chain =
     (let key = scope_key (RemoteIP req) (Header req (HeaderName ri));
          pre = [ReqMethod, ReqHeader (HeaderName ri), ReqRemoteIP, StoreSave key]
      in
      if err = Some ErrRequestIDExist then
        \<lparr>outcome = Returns (), guard = ri\<lparr>Store := Some st'\<rparr>,
         response = resp @ [ReportForbidden, Send ''error'' (ErrorOverlap ri)],
         calls = pre\<rparr>
      else
        (case err of
           Some e \<Rightarrow>
             (case logger ri of
                None \<Rightarrow>
                  \<lparr>outcome = Panics NilDereference, guard = ri\<lparr>Store := Some st'\<rparr>,
                   response = resp, calls = pre\<rparr>
              | Some l \<Rightarrow>
                  \<lparr>outcome = Panics (LoggerPanic e),
                   guard = ri\<lparr>Store := Some st', logger := Some (l\<lparr>entries := entries l @ [e]\<rparr>)\<rparr>,
                   response = resp, calls = pre @ [LoggerPanicln e]\<rparr>)
         | None \<Rightarrow>
             (case chain req resp of
                (Panics p, resp') \<Rightarrow>
                  \<lparr>outcome = Panics p, guard = ri\<lparr>Store := Some st'\<rparr>, response = resp',
                   calls = pre @ [ChainCall]\<rparr>
              | (Returns u, resp') \<Rightarrow>
                  \<lparr>outcome = (case fst (IDStore_Remove st' key) of
                                Panics p \<Rightarrow> Panics p | Returns rerr \<Rightarrow> Returns ()),
                   guard = ri\<lparr>Store := Some (snd (IDStore_Remove st' key))\<rparr>,
                   response = resp',
                   calls = pre @ [ChainCall, StoreRemove key]\<rparr>)))"
  using assms
  by (simp add: RequestId_Filter_def Panicln_def Let_def
           split: option.split outcome.split prod.split)


text \<open>
  There is no \<open>defer\<close>: when the chain panics after a successful \<open>Save\<close>, the panic
  passes through the filter and \<open>Remove\<close> is not called.
\<close>

lemma Filter_chain_panics:
  assumes "Method req \<noteq> ''GET''" and "Header req (HeaderName ri) \<noteq> ''''"
    and "Store ri = Some st"
    and "IDStore_Save st (scope_key (RemoteIP req) (Header req (HeaderName ri))) =
           (Returns None, st')"
    and "chain req resp = (Panics p, resp')"
  shows "outcome (RequestId_Filter ri req resp chain) = Panics p
       \<and> StoreRemove k \<notin> set (calls (RequestId_Filter ri req resp chain))
       \<and> Store (guard (RequestId_Filter ri req resp chain)) = Some st'"
  using assms(5) Filter_Save_returns [OF assms(1-4), of resp chain]
  by (simp add: Let_def)

text \<open>
  Claim C6. On a request whose method is \<open>"GET"\<close> the filter reads the method and
  calls the chain, whatever the headers are: it reads no header, calls neither
  \<open>Save\<close> nor \<open>Remove\<close>, leaves the guard and its store as they were, and ends as the
  chain ends, with the response the chain left.
\<close>

theorem Filter_GET_bypass:
  assumes "Method req = ''GET''"
  shows "RequestId_Filter ri req resp chain =
           \<lparr>outcome = fst (chain req resp), guard = ri, response = snd (chain req resp),
            calls = [ReqMethod, ChainCall]\<rparr>
       \<and> ChainCall \<in> set (calls (RequestId_Filter ri req resp chain))
       \<and> ReqHeader h \<notin> set (calls (RequestId_Filter ri req resp chain))
       \<and> StoreSave k \<notin> set (calls (RequestId_Filter ri req resp chain))
       \<and> StoreRemove k \<notin> set (calls (RequestId_Filter ri req resp chain))"
  by (simp add: Filter_GET [OF assms])

theorem Filter_GET_bypass_witness:
  "Method (request ''GET'' ''1.2.3.4'' ''abc'') = ''GET''
   \<and> RequestId_Filter
         (guard_over (Mem \<lparr>requests = Some [''1.2.3.4:abc'' \<mapsto> ()]\<rparr> :: unit IDStore) False)
         (request ''GET'' ''1.2.3.4'' ''abc'') [] handler =
       \<lparr>outcome = Returns (),
        guard = guard_over (Mem \<lparr>requests = Some [''1.2.3.4:abc'' \<mapsto> ()]\<rparr>) False,
        response = [Send ''ok'' ''GET''], calls = [ReqMethod, ChainCall]\<rparr>
   \<and> RequestId_Filter
         (guard_over (Mem \<lparr>requests = Some [''1.2.3.4:abc'' \<mapsto> ()]\<rparr> :: unit IDStore) False)
         (request ''GET'' ''1.2.3.4'' '''') [] handler =
       \<lparr>outcome = Returns (),
        guard = guard_over (Mem \<lparr>requests = Some [''1.2.3.4:abc'' \<mapsto> ()]\<rparr>) False,
        response = [Send ''ok'' ''GET''], calls = [ReqMethod, ChainCall]\<rparr>"
proof -
  let ?ri = "guard_over (Mem \<lparr>requests = Some [''1.2.3.4:abc'' \<mapsto> ()]\<rparr> :: unit IDStore) False"
  have get: "Method (request ''GET'' ''1.2.3.4'' ''abc'') = ''GET''"
    and get': "Method (request ''GET'' ''1.2.3.4'' '''') = ''GET''"
    by (simp_all add: request_def)
  have h: "handler (request ''GET'' ''1.2.3.4'' ''abc'') [] = (Returns (), [Send ''ok'' ''GET''])"
    and h': "handler (request ''GET'' ''1.2.3.4'' '''') [] = (Returns (), [Send ''ok'' ''GET''])"
    by (simp_all add: handler_def request_def)
  show ?thesis
    using get Filter_GET_bypass [OF get, of ?ri "[]" handler "''X-Request-Id''" "''1.2.3.4:abc''"]
      Filter_GET_bypass [OF get', of ?ri "[]" handler "''X-Request-Id''" "''1.2.3.4:abc''"]
    by (simp add: h h')
qed

text \<open>
  Claim C7. On a request that is not a \<open>"GET"\<close> and whose token header is empty: with
  \<open>PassingOnNoId\<close> the filter calls the chain and ends as the chain ends; without it
  the filter reports a bad request, sends \<open>ri.Error\<close> under \<open>"error"\<close>, and returns
  without calling the chain. In both cases the store is not called and the guard is
  as it was.
\<close>

theorem Filter_missing_token:
  assumes "Method req \<noteq> ''GET''" and "Header req (HeaderName ri) = ''''"
  shows "(PassingOnNoId ri \<longrightarrow>
            RequestId_Filter ri req resp chain =
              \<lparr>outcome = fst (chain req resp), guard = ri, response = snd (chain req resp),
               calls = [ReqMethod, ReqHeader (HeaderName ri), ChainCall]\<rparr>)
       \<and> (\<not> PassingOnNoId ri \<longrightarrow>
            RequestId_Filter ri req resp chain =
              \<lparr>outcome = Returns (), guard = ri,
               response = resp @ [ReportBadRequest, Send ''error'' (Error ri)],
               calls = [ReqMethod, ReqHeader (HeaderName ri)]\<rparr>)
       \<and> StoreSave k \<notin> set (calls (RequestId_Filter ri req resp chain))
       \<and> StoreRemove k \<notin> set (calls (RequestId_Filter ri req resp chain))"
  using Filter_no_token [OF assms] by simp

theorem Filter_missing_token_witness:
  "Method (request ''POST'' ''1.2.3.4'' '''') \<noteq> ''GET''
   \<and> Header (request ''POST'' ''1.2.3.4'' '''') ''X-Request-Id'' = ''''
   \<and> RequestId_Filter (guard_over (Mem \<lparr>requests = Some Map.empty\<rparr> :: unit IDStore) True)
         (request ''POST'' ''1.2.3.4'' '''') [] handler =
       \<lparr>outcome = Returns (), guard = guard_over (Mem \<lparr>requests = Some Map.empty\<rparr>) True,
        response = [Send ''ok'' ''POST''],
        calls = [ReqMethod, ReqHeader ''X-Request-Id'', ChainCall]\<rparr>
   \<and> RequestId_Filter (guard_over (Mem \<lparr>requests = Some Map.empty\<rparr> :: unit IDStore) False)
         (request ''POST'' ''1.2.3.4'' '''') [] handler =
       \<lparr>outcome = Returns (), guard = guard_over (Mem \<lparr>requests = Some Map.empty\<rparr>) False,
        response = [ReportBadRequest, Send ''error'' ''header value X-Request-Id can't be empty''],
        calls = [ReqMethod, ReqHeader ''X-Request-Id'']\<rparr>"
proof -
  let ?req = "request ''POST'' ''1.2.3.4'' ''''"
  let ?st = "Mem \<lparr>requests = Some Map.empty\<rparr> :: unit IDStore"
  have post: "Method ?req \<noteq> ''GET''" by (simp add: request_def)
  have empty_T: "Header ?req (HeaderName (guard_over ?st True)) = ''''"
    and empty_F: "Header ?req (HeaderName (guard_over ?st False)) = ''''"
    by (simp_all add: request_def guard_over_def)
  have h: "handler ?req [] = (Returns (), [Send ''ok'' ''POST''])"
    by (simp add: handler_def request_def)
  have T: "PassingOnNoId (guard_over ?st True)" and F: "\<not> PassingOnNoId (guard_over ?st False)"
    by (simp_all add: guard_over_def)
  have names: "HeaderName (guard_over ?st True) = ''X-Request-Id''"
    "HeaderName (guard_over ?st False) = ''X-Request-Id''"
    "Error (guard_over ?st False) = ''header value X-Request-Id can't be empty''"
    by (simp_all add: guard_over_def)
  have hdr: "Header ?req ''X-Request-Id'' = ''''" by (simp add: request_def)
  show ?thesis
    using post hdr T F
      Filter_missing_token [OF post empty_T, of "[]" handler "''1.2.3.4:abc''"]
      Filter_missing_token [OF post empty_F, of "[]" handler "''1.2.3.4:abc''"]
    by (simp add: h names)
qed

text \<open>
  Claim C2. On a request that is not a \<open>"GET"\<close>, carries a non-empty token, and whose
  \<open>Save\<close> on the scope key returns \<open>ErrRequestIDExist\<close>, the filter reports forbidden,
  sends \<open>ri.ErrorOverlap\<close> under \<open>"error"\<close>, and returns: the chain is not called, and
  neither is \<open>Remove\<close>.
\<close>

theorem Filter_duplicate_rejected:
  assumes "Method req \<noteq> ''GET''" and "Header req (HeaderName ri) \<noteq> ''''"
    and "Store ri = Some st"
    and "IDStore_Save st (scope_key (RemoteIP req) (Header req (HeaderName ri))) =
           (Returns (Some ErrRequestIDExist), st')"
  shows "RequestId_Filter ri req resp chain =
           \<lparr>outcome = Returns (), guard = ri\<lparr>Store := Some st'\<rparr>,
            response = resp @ [ReportForbidden, Send ''error'' (ErrorOverlap ri)],
            calls = [ReqMethod, ReqHeader (HeaderName ri), ReqRemoteIP,
                     StoreSave (scope_key (RemoteIP req) (Header req (HeaderName ri)))]\<rparr>
       \<and> ChainCall \<notin> set (calls (RequestId_Filter ri req resp chain))
       \<and> StoreRemove k \<notin> set (calls (RequestId_Filter ri req resp chain))"
  using Filter_Save_returns [OF assms] by (simp add: Let_def)

theorem Filter_duplicate_rejected_witness:
  "Method (request ''POST'' ''1.2.3.4'' ''abc'') \<noteq> ''GET''
   \<and> Header (request ''POST'' ''1.2.3.4'' ''abc'') ''X-Request-Id'' \<noteq> ''''
   \<and> IDStore_Save (Mem \<lparr>requests = Some [''1.2.3.4:abc'' \<mapsto> ()]\<rparr> :: unit IDStore)
         ''1.2.3.4:abc'' =
       (Returns (Some ErrRequestIDExist), Mem \<lparr>requests = Some [''1.2.3.4:abc'' \<mapsto> ()]\<rparr>)
   \<and> RequestId_Filter
         (guard_over (Mem \<lparr>requests = Some [''1.2.3.4:abc'' \<mapsto> ()]\<rparr> :: unit IDStore) False)
         (request ''POST'' ''1.2.3.4'' ''abc'') [] handler =
       \<lparr>outcome = Returns (),
        guard = guard_over (Mem \<lparr>requests = Some [''1.2.3.4:abc'' \<mapsto> ()]\<rparr>) False,
        response = [ReportForbidden, Send ''error'' ''request already accepted before, please wait''],
        calls = [ReqMethod, ReqHeader ''X-Request-Id'', ReqRemoteIP, StoreSave ''1.2.3.4:abc'']\<rparr>"
proof -
  let ?req = "request ''POST'' ''1.2.3.4'' ''abc''"
  let ?st = "Mem \<lparr>requests = Some [''1.2.3.4:abc'' \<mapsto> ()]\<rparr> :: unit IDStore"
  let ?ri = "guard_over ?st False"
  have post: "Method ?req \<noteq> ''GET''" by (simp add: request_def)
  have tok: "Header ?req (HeaderName ?ri) \<noteq> ''''" by (simp add: request_def guard_over_def)
  have st: "Store ?ri = Some ?st" by (simp add: guard_over_def)
  have key: "scope_key (RemoteIP ?req) (Header ?req (HeaderName ?ri)) = ''1.2.3.4:abc''"
    by (simp add: scope_key_def request_def guard_over_def)
  have sv: "IDStore_Save ?st ''1.2.3.4:abc'' = (Returns (Some ErrRequestIDExist), ?st)"
    by (simp add: IDStore_Save_def MemIDStore_Save_def)
  have sv': "IDStore_Save ?st (scope_key (RemoteIP ?req) (Header ?req (HeaderName ?ri))) =
      (Returns (Some ErrRequestIDExist), ?st)"
    unfolding key by (rule sv)
  have same: "?ri\<lparr>Store := Some ?st\<rparr> = ?ri" by (simp add: guard_over_def)
  have names: "HeaderName ?ri = ''X-Request-Id''"
    "ErrorOverlap ?ri = ''request already accepted before, please wait''"
    by (simp_all add: guard_over_def)
  have hdr: "Header ?req ''X-Request-Id'' \<noteq> ''''" by (simp add: request_def)
  show ?thesis
    using post hdr sv Filter_duplicate_rejected [OF post tok st sv', of "[]" handler "''1.2.3.4:abc''"]
    by (simp add: key [unfolded names] same names)
qed

text \<open>
  Claim C4. On a request that is not a \<open>"GET"\<close>, carries a non-empty token, and whose
  \<open>Save\<close> returns an error other than \<open>ErrRequestIDExist\<close>, the filter does not call
  the chain and does not return normally: it panics, and the response is left
  untouched (no forbidden status, no overlap message). With a logger set (as \<open>Init\<close>
  sets it) the filter hands the error to \<open>Panicln\<close>: it is appended to the log and
  the panic carries it. With a nil logger the panic is the nil dereference of
  \<open>ri.logger.Panicln\<close>.
\<close>

theorem Filter_backend_error_fails_closed:
  assumes "Method req \<noteq> ''GET''" and "Header req (HeaderName ri) \<noteq> ''''"
    and "Store ri = Some st"
    and "IDStore_Save st (scope_key (RemoteIP req) (Header req (HeaderName ri))) =
           (Returns (Some e), st')"
    and "e \<noteq> ErrRequestIDExist"
  shows "ChainCall \<notin> set (calls (RequestId_Filter ri req resp chain))
       \<and> (\<exists>p. outcome (RequestId_Filter ri req resp chain) = Panics p)
       \<and> response (RequestId_Filter ri req resp chain) = resp
       \<and> (logger ri = Some l \<longrightarrow>
            LoggerPanicln e \<in> set (calls (RequestId_Filter ri req resp chain))
            \<and> outcome (RequestId_Filter ri req resp chain) = Panics (LoggerPanic e)
            \<and> logger (guard (RequestId_Filter ri req resp chain)) =
                Some (l\<lparr>entries := entries l @ [e]\<rparr>))
       \<and> (logger ri = None \<longrightarrow>
            outcome (RequestId_Filter ri req resp chain) = Panics NilDereference)"
  using assms(5) Filter_Save_returns [OF assms(1-4), of resp chain]
  by (cases "logger ri") (simp_all add: Let_def)

theorem Filter_backend_error_fails_closed_witness:
  "Method (request ''POST'' ''1.2.3.4'' ''abc'') \<noteq> ''GET''
   \<and> Header (request ''POST'' ''1.2.3.4'' ''abc'') ''X-Request-Id'' \<noteq> ''''
   \<and> IDStore_Save (Impl (stub_store None (Some (ForeignError ''connection refused'')) None) ())
         ''1.2.3.4:abc'' =
       (Returns (Some (ForeignError ''connection refused'')),
        Impl (stub_store None (Some (ForeignError ''connection refused'')) None) ())
   \<and> ForeignError ''connection refused'' \<noteq> ErrRequestIDExist
   \<and> ChainCall \<notin> set (calls (RequestId_Filter
         (guard_over (Impl (stub_store None (Some (ForeignError ''connection refused'')) None) ())
            False)
         (request ''POST'' ''1.2.3.4'' ''abc'') [] handler))
   \<and> LoggerPanicln (ForeignError ''connection refused'') \<in> set (calls (RequestId_Filter
         (guard_over (Impl (stub_store None (Some (ForeignError ''connection refused'')) None) ())
            False)
         (request ''POST'' ''1.2.3.4'' ''abc'') [] handler))
   \<and> outcome (RequestId_Filter
         (guard_over (Impl (stub_store None (Some (ForeignError ''connection refused'')) None) ())
            False)
         (request ''POST'' ''1.2.3.4'' ''abc'') [] handler) =
       Panics (LoggerPanic (ForeignError ''connection refused''))
   \<and> logger (guard (RequestId_Filter
         (guard_over (Impl (stub_store None (Some (ForeignError ''connection refused'')) None) ())
            False)
         (request ''POST'' ''1.2.3.4'' ''abc'') [] handler)) =
       Some \<lparr>entries = [ForeignError ''connection refused'']\<rparr>
   \<and> outcome (RequestId_Filter
         ((guard_over (Impl (stub_store None (Some (ForeignError ''connection refused'')) None) ())
            False)\<lparr>logger := None\<rparr>)
         (request ''POST'' ''1.2.3.4'' ''abc'') [] handler) =
       Panics NilDereference"
proof -
  let ?e = "ForeignError ''connection refused''"
  let ?req = "request ''POST'' ''1.2.3.4'' ''abc''"
  let ?st = "Impl (stub_store None (Some ?e) None) ()"
  let ?ri = "guard_over ?st False"
  let ?rn = "?ri\<lparr>logger := None\<rparr>"
  have post: "Method ?req \<noteq> ''GET''" by (simp add: request_def)
  have tok: "Header ?req (HeaderName ?ri) \<noteq> ''''" "Header ?req (HeaderName ?rn) \<noteq> ''''"
    by (simp_all add: request_def guard_over_def)
  have hdr: "Header ?req ''X-Request-Id'' \<noteq> ''''" by (simp add: request_def)
  have st: "Store ?ri = Some ?st" "Store ?rn = Some ?st" by (simp_all add: guard_over_def)
  have sv: "IDStore_Save ?st k = (Returns (Some ?e), ?st)" for k
    by (simp add: IDStore_Save_def stub_store_def)
  have ne: "?e \<noteq> ErrRequestIDExist" by (simp add: ErrRequestIDExist_def)
  have lg: "logger ?ri = Some \<lparr>entries = []\<rparr>" and lg0: "logger ?rn = None"
    by (simp_all add: guard_over_def)
  note a = Filter_backend_error_fails_closed [OF post tok(1) st(1) sv ne,
      of "[]" handler "\<lparr>entries = []\<rparr>"]
  note b = Filter_backend_error_fails_closed [OF post tok(2) st(2) sv ne,
      of "[]" handler "\<lparr>entries = []\<rparr>"]
  show ?thesis
    using post hdr sv [of "''1.2.3.4:abc''"] ne a b lg lg0 by simp
qed

text \<open>
  Claim C5, as the code has it. On a request that is not a \<open>"GET"\<close>, carries a
  non-empty token, and whose \<open>Save\<close> returns nil, the filter calls the chain and,
  when the chain has returned (with whatever response), calls \<open>Remove\<close> on the same
  scope key. What \<open>Remove\<close> returns is dropped: be it nil or an error, the filter
  returns normally, the response is the one the chain left, and the guard's logger
  is as it was, so nothing is written to the log.
\<close>

theorem Filter_claim_chain_release:
  assumes "Method req \<noteq> ''GET''" and "Header req (HeaderName ri) \<noteq> ''''"
    and "Store ri = Some st"
    and "IDStore_Save st (scope_key (RemoteIP req) (Header req (HeaderName ri))) =
           (Returns None, st')"
    and "chain req resp = (Returns (), resp')"
    and "IDStore_Remove st' (scope_key (RemoteIP req) (Header req (HeaderName ri))) =
           (Returns rerr, st'')"
  shows "RequestId_Filter ri req resp chain =
           \<lparr>outcome = Returns (), guard = ri\<lparr>Store := Some st''\<rparr>, response = resp',
            calls = [ReqMethod, ReqHeader (HeaderName ri), ReqRemoteIP,
                     StoreSave (scope_key (RemoteIP req) (Header req (HeaderName ri))),
                     ChainCall,
                     StoreRemove (scope_key (RemoteIP req) (Header req (HeaderName ri)))]\<rparr>
       \<and> logged (guard (RequestId_Filter ri req resp chain)) = logged ri"
  using assms(5,6) Filter_Save_returns [OF assms(1-4), of resp chain]
  by (simp add: Let_def logged_def)

theorem Filter_claim_chain_release_witness:
  "Method (request ''POST'' ''1.2.3.4'' ''abc'') \<noteq> ''GET''
   \<and> Header (request ''POST'' ''1.2.3.4'' ''abc'') ''X-Request-Id'' \<noteq> ''''
   \<and> IDStore_Save (Impl (stub_store None None (Some (ForeignError ''connection reset''))) ())
         ''1.2.3.4:abc'' =
       (Returns None, Impl (stub_store None None (Some (ForeignError ''connection reset''))) ())
   \<and> handler (request ''POST'' ''1.2.3.4'' ''abc'') [] = (Returns (), [Send ''ok'' ''POST''])
   \<and> IDStore_Remove (Impl (stub_store None None (Some (ForeignError ''connection reset''))) ())
         ''1.2.3.4:abc'' =
       (Returns (Some (ForeignError ''connection reset'')),
        Impl (stub_store None None (Some (ForeignError ''connection reset''))) ())
   \<and> RequestId_Filter
         (guard_over (Impl (stub_store None None (Some (ForeignError ''connection reset''))) ())
            False)
         (request ''POST'' ''1.2.3.4'' ''abc'') [] handler =
       \<lparr>outcome = Returns (),
        guard = guard_over
          (Impl (stub_store None None (Some (ForeignError ''connection reset''))) ()) False,
        response = [Send ''ok'' ''POST''],
        calls = [ReqMethod, ReqHeader ''X-Request-Id'', ReqRemoteIP, StoreSave ''1.2.3.4:abc'',
                 ChainCall, StoreRemove ''1.2.3.4:abc'']\<rparr>"
proof -
  let ?req = "request ''POST'' ''1.2.3.4'' ''abc''"
  let ?st = "Impl (stub_store None None (Some (ForeignError ''connection reset''))) ()"
  let ?ri = "guard_over ?st False"
  have post: "Method ?req \<noteq> ''GET''" by (simp add: request_def)
  have tok: "Header ?req (HeaderName ?ri) \<noteq> ''''" by (simp add: request_def guard_over_def)
  have hdr: "Header ?req ''X-Request-Id'' \<noteq> ''''" by (simp add: request_def)
  have st: "Store ?ri = Some ?st" by (simp add: guard_over_def)
  have names: "HeaderName ?ri = ''X-Request-Id''" by (simp add: guard_over_def)
  have key: "scope_key (RemoteIP ?req) (Header ?req ''X-Request-Id'') = ''1.2.3.4:abc''"
    by (simp add: scope_key_def request_def)
  have sv: "IDStore_Save ?st k = (Returns None, ?st)" for k
    by (simp add: IDStore_Save_def stub_store_def)
  have h: "handler ?req [] = (Returns (), [Send ''ok'' ''POST''])"
    by (simp add: handler_def request_def)
  have rm: "IDStore_Remove ?st k = (Returns (Some (ForeignError ''connection reset'')), ?st)" for k
    by (simp add: IDStore_Remove_def stub_store_def)
  have same: "?ri\<lparr>Store := Some ?st\<rparr> = ?ri" by (simp add: guard_over_def)
  note t = Filter_claim_chain_release [where chain = handler and resp = "[]",
      OF post tok st sv h rm]
  show ?thesis
    using post hdr sv [of "''1.2.3.4:abc''"] h rm [of "''1.2.3.4:abc''"] t
    by (simp add: names key same)
qed

text \<open>
  Against claim C5 as stated: a store whose \<open>Remove\<close> fails. The filter returns
  normally and the log stays empty: the failure reaches neither the caller nor an
  operator.
\<close>

theorem Filter_Remove_error_unobserved:
  "fst (IDStore_Remove (Impl (stub_store None None (Some (ForeignError ''connection reset''))) ())
          ''1.2.3.4:abc'') = Returns (Some (ForeignError ''connection reset''))
   \<and> outcome (RequestId_Filter
         (guard_over (Impl (stub_store None None (Some (ForeignError ''connection reset''))) ())
            False)
         (request ''POST'' ''1.2.3.4'' ''abc'') [] handler) = Returns ()
   \<and> calls (RequestId_Filter
         (guard_over (Impl (stub_store None None (Some (ForeignError ''connection reset''))) ())
            False)
         (request ''POST'' ''1.2.3.4'' ''abc'') [] handler) =
       [ReqMethod, ReqHeader ''X-Request-Id'', ReqRemoteIP, StoreSave ''1.2.3.4:abc'',
        ChainCall, StoreRemove ''1.2.3.4:abc'']
   \<and> logged (guard (RequestId_Filter
         (guard_over (Impl (stub_store None None (Some (ForeignError ''connection reset''))) ())
            False)
         (request ''POST'' ''1.2.3.4'' ''abc'') [] handler)) = []"
  by (simp add: RequestId_Filter_def IDStore_Save_def IDStore_Remove_def stub_store_def
        guard_over_def request_def handler_def scope_key_def logged_def ErrRequestIDExist_def
        Let_def)





text \<open>
  Claim C10. \<open>RequestId.Init\<close> never returns an error. Whatever \<open>Store.Init(env)\<close>
  returns, an error included, \<open>Init\<close> returns nil and the guard keeps that store,
  with its defaults and logger set as after a successful start. An example of a store
  initialisation that fails: \<open>RedisIDStore.Init\<close> returns an error when the
  environment holds no redis component.
\<close>

theorem RequestId_Init_returns_nil:
  "fst (RequestId_Init ri env) \<noteq> Returns (Some e)
   \<and> (IDStore_Init st env = (Returns r, st') \<longrightarrow>
        RequestId_Init (ri\<lparr>Store := Some st\<rparr>) env =
          (Returns None,
           ri\<lparr>Store := Some st',
              HeaderName := defval_String (HeaderName ri) ''X-Request-Id'',
              Error := defval_String (Error ri) ''header value X-Request-Id can't be empty'',
              ErrorOverlap :=
                defval_String (ErrorOverlap ri) ''request already accepted before, please wait'',
              logger := Logger env\<rparr>))
   \<and> (Store ri = None \<longrightarrow>
        fst (RequestId_Init ri env) = Returns None
        \<and> Store (snd (RequestId_Init ri env)) = Some (Mem \<lparr>requests = Some Map.empty\<rparr>))
   \<and> (Component env name = (None, None) \<longrightarrow>
        RedisIDStore_Init name rs env =
          (Returns (Some (Err ''component redis isn't loaded'')), rs))"
proof -
  have a: "fst (RequestId_Init ri env) \<noteq> Returns (Some e)"
    by (simp add: RequestId_Init_def Let_def split: prod.split outcome.split)
  have b: "RequestId_Init (ri\<lparr>Store := Some st\<rparr>) env =
          (Returns None,
           ri\<lparr>Store := Some st',
              HeaderName := defval_String (HeaderName ri) ''X-Request-Id'',
              Error := defval_String (Error ri) ''header value X-Request-Id can't be empty'',
              ErrorOverlap :=
                defval_String (ErrorOverlap ri) ''request already accepted before, please wait'',
              logger := Logger env\<rparr>)"
    if "IDStore_Init st env = (Returns r, st')"
    using that by (simp add: RequestId_Init_def)
  have c: "RedisIDStore_Init name rs env =
          (Returns (Some (Err ''component redis isn't loaded'')), rs)"
    if "Component env name = (None, None)"
    using that by (simp add: RedisIDStore_Init_def)
  have d: "fst (RequestId_Init ri env) = Returns None
      \<and> Store (snd (RequestId_Init ri env)) = Some (Mem \<lparr>requests = Some Map.empty\<rparr>)"
    if "Store ri = None"
    using that
    by (simp add: RequestId_Init_def IDStore_Init_def MemIDStore_Init_def new_MemIDStore_def)
  show ?thesis
    using a b c d by blast
qed

theorem RequestId_Init_returns_nil_witness:
  "IDStore_Init (Impl (stub_store (Some (Err ''component redis isn't loaded'')) None None) ())
       \<lparr>Component = (\<lambda>n. (None, None)), Logger = Some \<lparr>entries = []\<rparr>\<rparr> =
     (Returns (Some (Err ''component redis isn't loaded'')),
      Impl (stub_store (Some (Err ''component redis isn't loaded'')) None None) ())
   \<and> RequestId_Init
       \<lparr>Store = Some (Impl (stub_store (Some (Err ''component redis isn't loaded'')) None None) ()),
        HeaderName = '''', PassingOnNoId = False, Error = '''', ErrorOverlap = '''',
        logger = None\<rparr>
       \<lparr>Component = (\<lambda>n. (None, None)), Logger = Some \<lparr>entries = []\<rparr>\<rparr> =
     (Returns None,
      guard_over (Impl (stub_store (Some (Err ''component redis isn't loaded'')) None None) ())
        False)
   \<and> fst (RequestId_Init
         (\<lparr>Store = None, HeaderName = '''', PassingOnNoId = False, Error = '''',
           ErrorOverlap = '''', logger = None\<rparr> :: unit RequestId)
         \<lparr>Component = (\<lambda>n. (None, None)), Logger = Some \<lparr>entries = []\<rparr>\<rparr>) = Returns None
   \<and> Component \<lparr>Component = (\<lambda>n. (None, None)), Logger = Some \<lparr>entries = []\<rparr>\<rparr> ''Redis'' =
       (None, None)
   \<and> RedisIDStore_Init ''Redis'' \<lparr>Key = '''', redis = None\<rparr>
       \<lparr>Component = (\<lambda>n. (None, None)), Logger = Some \<lparr>entries = []\<rparr>\<rparr> =
     (Returns (Some (Err ''component redis isn't loaded'')), \<lparr>Key = '''', redis = None\<rparr>)"
proof -
  let ?err = "Err ''component redis isn't loaded''"
  let ?st = "Impl (stub_store (Some ?err) None None) ()"
  let ?env = "\<lparr>Component = (\<lambda>n. (None, None)), Logger = Some \<lparr>entries = []\<rparr>\<rparr>"
  let ?blank = "\<lparr>Store = Some ?st, HeaderName = '''', PassingOnNoId = False, Error = '''',
      ErrorOverlap = '''', logger = None\<rparr>"
  let ?rs = "\<lparr>Key = '''', redis = None\<rparr>"
  have init: "IDStore_Init ?st ?env = (Returns (Some ?err), ?st)"
    by (simp add: IDStore_Init_def stub_store_def)
  have comp: "Component ?env ''Redis'' = (None, None)" by simp
  note t = RequestId_Init_returns_nil [of ?blank ?env ?err ?st "Some ?err" ?st "''Redis''" ?rs]
  have i: "RequestId_Init ?blank ?env = (Returns None, guard_over ?st False)"
    using t init by (simp add: guard_over_def defval_String_def)
  have r: "RedisIDStore_Init ''Redis'' ?rs ?env = (Returns (Some ?err), ?rs)"
    using t comp by blast
  let ?none = "\<lparr>Store = None, HeaderName = '''', PassingOnNoId = False, Error = '''',
      ErrorOverlap = '''', logger = None\<rparr> :: unit RequestId"
  have unset: "Store ?none = None" by simp
  have n: "fst (RequestId_Init ?none ?env) = Returns None"
    using RequestId_Init_returns_nil [of ?none ?env ?err ?st "Some ?err" ?st "''Redis''" ?rs]
      unset by blast
  show ?thesis
    using init i comp r n by blast
qed

end
